theory Spec2Isabelle
  imports Complex_Main
begin

section \<open>MIL-STD-704 power quality compliance checker: the rule evaluation of script.js\<close>

text \<open>
  The program is one submit handler, \<open>runComplianceCheck\<close>, over a table of two bus
  profiles. It reads seven form fields, compares the numbers it finds with the limits of
  the selected profile, and hands a list of check results and their conjunction to the
  rendering functions.

  Numbers. Every number the handler compares or prints is a finite IEEE double: the
  profile limits are literals and \<open>parseNumber\<close> lets only finite values through. A
  finite double is embedded as the rational number it denotes (\<^typ>\<open>rat\<close>); the order
  of finite doubles is the order of these rationals, so \<open>\<le>\<close> and \<open>\<ge>\<close> of the source are
  \<open>\<le>\<close> and \<open>\<ge>\<close> here, and both zeros of the source are the one rational zero (the
  handler never tells them apart). The handler does no arithmetic on its numbers.
\<close>

subsection \<open>Data\<close>

text \<open>
  A bus profile (lines 26-49). \<open>steadyVoltageRange\<close> and \<open>frequencyRange\<close> are
  two-element arrays, here pairs; \<open>frequencyRange\<close> is \<open>null\<close> on the DC bus, here
  \<open>None\<close>. The display label of a profile is the field \<open>busLabel\<close>, since the check
  results below have a field \<open>label\<close> of their own.
\<close>

record profile =
  busLabel :: string
  nominalVoltage :: rat
  steadyVoltageRange :: "rat \<times> rat"
  ripplePercentMax :: rat
  uvDipPercentMax :: rat
  uvDurationMaxMs :: rat
  ovSurgePercentMax :: rat
  ovDurationMaxMs :: rat
  hasFrequency :: bool
  frequencyRange :: "(rat \<times> rat) option"

text \<open>The elements pushed on \<open>checks\<close>: \<open>{label, pass, detail}\<close>.\<close>

record check =
  label :: string
  pass :: bool
  detail :: string

text \<open>
  The seven values read by \<open>parseNumber\<close> (lines 88-94), each a number or \<open>null\<close>.
\<close>

record measurement =
  steadyVoltage :: "rat option"
  steadyFrequency :: "rat option"
  ripple :: "rat option"
  uvDipPercent :: "rat option"
  uvDipDuration :: "rat option"
  ovSurgePercent :: "rat option"
  ovSurgeDuration :: "rat option"

text \<open>
  What the handler has computed when it reaches the rendering calls (lines 219-229):
  the list \<open>checks\<close> and \<open>overallPass\<close>.
\<close>

record report =
  checks :: "check list"
  overallPass :: bool

text \<open>
  What a run of the handler can end in besides a report. \<open>TypeError\<close> is the exception
  the JavaScript runtime throws when a property of \<open>undefined\<close> is read or \<open>null\<close> is
  destructured; nothing in the source catches it. \<open>NotFound\<close> is the condition the
  specification names for an unknown bus type; no path of the source raises it.
\<close>

datatype js_error = TypeError | NotFound

subsection \<open>The profile table\<close>

definition dc28 :: profile where
  "dc28 =
     \<lparr>busLabel = ''28 VDC Main Bus (Illustrative)'',
      nominalVoltage = 28,
      steadyVoltageRange = (22, 29),
      ripplePercentMax = 5,
      uvDipPercentMax = 20,
      uvDurationMaxMs = 50,
      ovSurgePercentMax = 20,
      ovDurationMaxMs = 50,
      hasFrequency = False,
      frequencyRange = None\<rparr>"

definition ac115 :: profile where
  "ac115 =
     \<lparr>busLabel = ''115 VAC, 400 Hz (Illustrative)'',
      nominalVoltage = 115,
      steadyVoltageRange = (108, 118),
      ripplePercentMax = 5,
      uvDipPercentMax = 20,
      uvDurationMaxMs = 50,
      ovSurgePercentMax = 20,
      ovDurationMaxMs = 50,
      hasFrequency = True,
      frequencyRange = Some (395, 405)\<rparr>"

text \<open>
  \<open>busProfiles[busKey]\<close>. The table is an object literal with two keys of its own; as
  every object literal it inherits from \<open>Object.prototype\<close>, so a key that names a member
  of \<open>Object.prototype\<close> (ECMA-262, with the accessors of its Annex B that browsers
  implement) reads that member, a function or an object with none of a profile's
  properties. Every other key reads \<open>undefined\<close>.
\<close>

datatype lookup = Entry profile | Inherited | Missing

definition objectPrototypeNames :: "string list" where
  "objectPrototypeNames =
     [''constructor'', ''hasOwnProperty'', ''isPrototypeOf'', ''propertyIsEnumerable'',
      ''toLocaleString'', ''toString'', ''valueOf'', ''__proto__'',
      ''__defineGetter__'', ''__defineSetter__'', ''__lookupGetter__'', ''__lookupSetter__'']"

definition busProfiles :: "string \<Rightarrow> lookup" where
  "busProfiles busKey =
     (if busKey = ''28vdc'' then Entry dc28
      else if busKey = ''115vac400'' then Entry ac115
      else if busKey \<in> set objectPrototypeNames then Inherited
      else Missing)"

subsection \<open>Reading a form field: \<open>parseNumber\<close> (lines 73-80)\<close>

text \<open>
  \<open>Number(val)\<close> returns a finite number, \<open>NaN\<close> (text that is no numeral) or an
  infinity (\<open>"Infinity"\<close>, \<open>"1e999"\<close>).
\<close>

datatype jsnum = Num rat | NaN | Infinity | NegInfinity

text \<open>
  The state of one form field as the handler sees it through the browser:
  \<open>getElementById\<close> finds no element; or the element's value trims to the empty string;
  or it trims to a non-empty string \<open>val\<close>, of which only \<open>Number(val)\<close> is used.
\<close>

datatype field = NoElement | Blank | Entered jsnum

type_synonym document = "string \<Rightarrow> field"

fun isFinite :: "jsnum \<Rightarrow> bool" where
  "isFinite (Num x) = True"
| "isFinite NaN = False"
| "isFinite Infinity = False"
| "isFinite NegInfinity = False"

definition parseNumber :: "document \<Rightarrow> string \<Rightarrow> rat option" where
  "parseNumber doc ident =
     (case doc ident of
        NoElement \<Rightarrow> None
      | Blank \<Rightarrow> None
      | Entered num \<Rightarrow>
          (if isFinite num then (case num of Num x \<Rightarrow> Some x | _ \<Rightarrow> None) else None))"

subsection \<open>Printing a number: \<open>Number.prototype.toFixed\<close>\<close>

text \<open>
  \<open>x.toFixed(f)\<close> as ECMA-262 defines it for a finite \<open>x\<close> and \<open>0 \<le> f \<le> 100\<close>:
  a minus sign when \<open>x < 0\<close>; then, for a magnitude below \<open>10^21\<close>, the integer \<open>n\<close>
  nearest to \<open>x * 10^f\<close> (the larger one on a tie), written in decimal, padded with
  zeros to \<open>f + 1\<close> digits, with a point before the last \<open>f\<close> digits when \<open>f \<noteq> 0\<close>.
  From \<open>10^21\<close> on the runtime prints the magnitude with \<open>Number::toString\<close> (exponent
  notation of the shortest digit string that reads back as the same double); that
  function is not part of this repository and is the parameter \<open>toStr\<close> of everything
  that prints.
\<close>

definition digitChar :: "nat \<Rightarrow> char" where
  "digitChar n = ''0123456789'' ! n"

function decimalDigits :: "nat \<Rightarrow> string" where
  "decimalDigits n =
     (if n < 10 then [digitChar n] else decimalDigits (n div 10) @ [digitChar (n mod 10)])"
  by pat_completeness auto
termination
  by (relation "measure id") auto

declare decimalDigits.simps [simp del]

definition toFixed :: "(rat \<Rightarrow> string) \<Rightarrow> rat \<Rightarrow> nat \<Rightarrow> string" where
  "toFixed toStr x0 f =
     (let s = (if x0 < 0 then ''-'' else '''');
          x = (if x0 < 0 then - x0 else x0)
      in if 10 ^ 21 \<le> x then s @ toStr x
         else
           let n = nat \<lfloor>x * 10 ^ f + 1 / 2\<rfloor>;
               m = decimalDigits n;
               m = (if f \<noteq> 0
                    then let k = length m;
                             m = (if k \<le> f then replicate (f + 1 - k) (CHR ''0'') @ m else m);
                             k = (if k \<le> f then f + 1 else k)
                         in take (k - f) m @ ''.'' @ drop (k - f) m
                    else m)
           in s @ m)"

text \<open>
  The two characters of the detail strings outside ASCII, as the bytes the source file
  holds for them (UTF-8): the en dash U+2013 and the sign U+2264.
\<close>

definition enDash :: string where
  "enDash = [CHR 0xE2, CHR 0x80, CHR 0x93]"

definition leSign :: string where
  "leSign = [CHR 0xE2, CHR 0x89, CHR 0xA4]"

subsection \<open>The five checks (lines 96-213)\<close>

text \<open>1) Steady-state voltage, lines 100-117.\<close>

definition steadyVoltageCheck :: "(rat \<Rightarrow> string) \<Rightarrow> profile \<Rightarrow> rat option \<Rightarrow> check" where
  "steadyVoltageCheck toStr profile measured =
     (case measured of
        Some v \<Rightarrow>
          (case steadyVoltageRange profile of
             (vMin, vMax) \<Rightarrow>
               \<lparr>label = ''Steady-State Voltage'',
                pass = (v \<ge> vMin \<and> v \<le> vMax),
                detail = ''Measured: '' @ toFixed toStr v 2 @ '' V, Allowed: ''
                  @ toFixed toStr vMin 1 @ enDash @ toFixed toStr vMax 1 @ '' V''\<rparr>)
      | None \<Rightarrow>
          \<lparr>label = ''Steady-State Voltage'',
           pass = False,
           detail = ''No measured voltage provided.''\<rparr>)"

text \<open>
  2) Frequency (AC only), lines 120-139: what the block pushes, nothing on a profile
  without frequency. Destructuring \<open>profile.frequencyRange\<close> when it is \<open>null\<close> throws.
\<close>

definition frequencyCheck ::
  "(rat \<Rightarrow> string) \<Rightarrow> profile \<Rightarrow> rat option \<Rightarrow> js_error + check list" where
  "frequencyCheck toStr profile measured =
     (if hasFrequency profile then
        (case measured of
           Some fr \<Rightarrow>
             (case frequencyRange profile of
                None \<Rightarrow> Inl TypeError
              | Some (fMin, fMax) \<Rightarrow>
                  Inr [\<lparr>label = ''Steady-State Frequency'',
                        pass = (fr \<ge> fMin \<and> fr \<le> fMax),
                        detail = ''Measured: '' @ toFixed toStr fr 2 @ '' Hz, Allowed: ''
                          @ toFixed toStr fMin 1 @ enDash @ toFixed toStr fMax 1 @ '' Hz''\<rparr>])
         | None \<Rightarrow>
             Inr [\<lparr>label = ''Steady-State Frequency'',
                   pass = False,
                   detail = ''No measured frequency provided for AC bus.''\<rparr>])
      else Inr [])"

text \<open>3) Ripple / distortion, lines 142-163.\<close>

definition rippleCheck :: "(rat \<Rightarrow> string) \<Rightarrow> profile \<Rightarrow> rat option \<Rightarrow> check" where
  "rippleCheck toStr profile measured =
     (case measured of
        Some rp \<Rightarrow>
          (let maxRipple = ripplePercentMax profile
           in \<lparr>label = (if hasFrequency profile then ''AC Distortion / THD''
                         else ''DC Ripple Voltage''),
               pass = (rp \<le> maxRipple),
               detail = ''Measured: '' @ toFixed toStr rp 2 @ '' %, Allowed: '' @ leSign
                 @ '' '' @ toFixed toStr maxRipple 1 @ '' %''\<rparr>)
      | None \<Rightarrow>
          \<lparr>label = (if hasFrequency profile then ''AC Distortion / THD''
                    else ''DC Ripple Voltage''),
           pass = False,
           detail = ''No ripple / distortion value provided.''\<rparr>)"

text \<open>4) Undervoltage dip, lines 166-188.\<close>

definition undervoltageCheck ::
  "(rat \<Rightarrow> string) \<Rightarrow> profile \<Rightarrow> rat option \<Rightarrow> rat option \<Rightarrow> check" where
  "undervoltageCheck toStr profile percent duration =
     (case (percent, duration) of
        (Some pc, Some du) \<Rightarrow>
          (let passPercent = (pc \<le> uvDipPercentMax profile);
               passDuration = (du \<le> uvDurationMaxMs profile)
           in \<lparr>label = ''Transient Undervoltage'',
               pass = (passPercent \<and> passDuration),
               detail = ''Measured: '' @ toFixed toStr pc 1 @ '' % for '' @ toFixed toStr du 0
                 @ '' ms, Allowed: '' @ leSign @ '' '' @ toFixed toStr (uvDipPercentMax profile) 1
                 @ '' % for '' @ leSign @ '' '' @ toFixed toStr (uvDurationMaxMs profile) 0
                 @ '' ms''\<rparr>)
      | _ \<Rightarrow>
          \<lparr>label = ''Transient Undervoltage'',
           pass = False,
           detail = ''Undervoltage dip percent and/or duration not provided.''\<rparr>)"

text \<open>5) Overvoltage surge, lines 191-213.\<close>

definition overvoltageCheck ::
  "(rat \<Rightarrow> string) \<Rightarrow> profile \<Rightarrow> rat option \<Rightarrow> rat option \<Rightarrow> check" where
  "overvoltageCheck toStr profile percent duration =
     (case (percent, duration) of
        (Some pc, Some du) \<Rightarrow>
          (let passPercent = (pc \<le> ovSurgePercentMax profile);
               passDuration = (du \<le> ovDurationMaxMs profile)
           in \<lparr>label = ''Transient Overvoltage'',
               pass = (passPercent \<and> passDuration),
               detail = ''Measured: '' @ toFixed toStr pc 1 @ '' % for '' @ toFixed toStr du 0
                 @ '' ms, Allowed: '' @ leSign @ '' '' @ toFixed toStr (ovSurgePercentMax profile) 1
                 @ '' % for '' @ leSign @ '' '' @ toFixed toStr (ovDurationMaxMs profile) 0
                 @ '' ms''\<rparr>)
      | _ \<Rightarrow>
          \<lparr>label = ''Transient Overvoltage'',
           pass = False,
           detail = ''Overvoltage surge percent and/or duration not provided.''\<rparr>)"

subsection \<open>The evaluation (lines 96-216) and the handler (lines 82-230)\<close>

text \<open>
  The body of the handler from \<open>const checks = []\<close> to \<open>overallPass\<close>, for a profile
  that is an object: the pushes in the order of the source, then
  \<open>checks.every((c) => c.pass)\<close>. An exception of the frequency block ends the run.
\<close>

definition evaluate :: "(rat \<Rightarrow> string) \<Rightarrow> profile \<Rightarrow> measurement \<Rightarrow> js_error + report" where
  "evaluate toStr profile m =
     (let cs = [];
          cs = cs @ [steadyVoltageCheck toStr profile (steadyVoltage m)]
      in case frequencyCheck toStr profile (steadyFrequency m) of
           Inl e \<Rightarrow> Inl e
         | Inr pushed \<Rightarrow>
             (let cs = cs @ pushed;
                  cs = cs @ [rippleCheck toStr profile (ripple m)];
                  cs = cs @ [undervoltageCheck toStr profile (uvDipPercent m) (uvDipDuration m)];
                  cs = cs @ [overvoltageCheck toStr profile (ovSurgePercent m) (ovSurgeDuration m)]
              in Inr \<lparr>checks = cs, overallPass = list_all pass cs\<rparr>))"

text \<open>
  The same body when \<open>profile\<close> is a member inherited from \<open>Object.prototype\<close>: every
  property the body reads from it is \<open>undefined\<close>. With a voltage entered, line 101
  destructures \<open>undefined\<close> and throws. \<open>profile.hasFrequency\<close> is falsy, so the frequency
  block is skipped and the ripple label is the DC one. With a ripple entered, line 147
  calls \<open>toFixed\<close> on \<open>undefined\<close> and throws; so do lines 174 and 199 when both values
  of a transient are entered. Otherwise the four not-provided results are pushed.
\<close>

definition evaluateInherited :: "measurement \<Rightarrow> js_error + report" where
  "evaluateInherited m =
     (case steadyVoltage m of
        Some v \<Rightarrow> Inl TypeError
      | None \<Rightarrow>
     (case ripple m of
        Some rp \<Rightarrow> Inl TypeError
      | None \<Rightarrow>
     (case (uvDipPercent m, uvDipDuration m) of
        (Some pc, Some du) \<Rightarrow> Inl TypeError
      | _ \<Rightarrow>
     (case (ovSurgePercent m, ovSurgeDuration m) of
        (Some pc, Some du) \<Rightarrow> Inl TypeError
      | _ \<Rightarrow>
          (let cs =
             [\<lparr>label = ''Steady-State Voltage'', pass = False,
               detail = ''No measured voltage provided.''\<rparr>,
              \<lparr>label = ''DC Ripple Voltage'', pass = False,
               detail = ''No ripple / distortion value provided.''\<rparr>,
              \<lparr>label = ''Transient Undervoltage'', pass = False,
               detail = ''Undervoltage dip percent and/or duration not provided.''\<rparr>,
              \<lparr>label = ''Transient Overvoltage'', pass = False,
               detail = ''Overvoltage surge percent and/or duration not provided.''\<rparr>]
           in Inr \<lparr>checks = cs, overallPass = list_all pass cs\<rparr>)))))"

text \<open>
  The same body when \<open>profile\<close> is \<open>undefined\<close>. With a voltage entered, line 101 reads
  \<open>profile.steadyVoltageRange\<close> and throws; otherwise the not-provided result is pushed
  and line 120 reads \<open>profile.hasFrequency\<close> and throws.
\<close>

definition evaluateUndefined :: "measurement \<Rightarrow> js_error + report" where
  "evaluateUndefined m =
     (case steadyVoltage m of
        Some v \<Rightarrow> Inl TypeError
      | None \<Rightarrow> Inl TypeError)"

text \<open>
  The handler: the selected key, the table lookup, the seven fields, the evaluation.
  Reading the fields succeeds whatever the lookup gave. The result \<open>Inr\<close> is what the
  three rendering calls receive; on \<open>Inl\<close> the handler has ended before them.
\<close>

definition runComplianceCheck ::
  "(rat \<Rightarrow> string) \<Rightarrow> string \<Rightarrow> document \<Rightarrow> js_error + report" where
  "runComplianceCheck toStr busKey doc =
     (let profile = busProfiles busKey;
          m = \<lparr>steadyVoltage = parseNumber doc ''steadyVoltage'',
               steadyFrequency = parseNumber doc ''steadyFrequency'',
               ripple = parseNumber doc ''ripple'',
               uvDipPercent = parseNumber doc ''uvDipPercent'',
               uvDipDuration = parseNumber doc ''uvDipDuration'',
               ovSurgePercent = parseNumber doc ''ovSurgePercent'',
               ovSurgeDuration = parseNumber doc ''ovSurgeDuration''\<rparr>
      in case profile of
           Missing \<Rightarrow> evaluateUndefined m
         | Inherited \<Rightarrow> evaluateInherited m
         | Entry p \<Rightarrow> evaluate toStr p m)"

subsection \<open>Vocabulary of the properties\<close>

text \<open>
  A profile announces a frequency with \<open>hasFrequency\<close> and carries its limits in
  \<open>frequencyRange\<close>; the evaluation reads the second only under the first. Both profiles
  of the table satisfy \<open>rangePresent\<close>.
\<close>

definition rangePresent :: "profile \<Rightarrow> bool" where
  "rangePresent p = (hasFrequency p \<longrightarrow> frequencyRange p \<noteq> None)"

definition frequencyLabelled :: "check \<Rightarrow> bool" where
  "frequencyLabelled c = (label c = ''Steady-State Frequency'')"

definition undervoltageLabelled :: "check \<Rightarrow> bool" where
  "undervoltageLabelled c = (label c = ''Transient Undervoltage'')"

definition overvoltageLabelled :: "check \<Rightarrow> bool" where
  "overvoltageLabelled c = (label c = ''Transient Overvoltage'')"

text \<open>
  \<open>fixedPoint f s\<close>: the string \<open>s\<close> is a numeral with exactly \<open>f\<close> decimal places:
  an optional minus sign, one or more digits and, unless \<open>f = 0\<close>, a point and \<open>f\<close>
  digits; nothing else.
\<close>

definition isDigit :: "char \<Rightarrow> bool" where
  "isDigit c = (c \<in> set ''0123456789'')"

definition unsigned :: "string \<Rightarrow> string" where
  "unsigned s = (case s of [] \<Rightarrow> s | c # t \<Rightarrow> if c = CHR ''-'' then t else s)"

definition fixedPoint :: "nat \<Rightarrow> string \<Rightarrow> bool" where
  "fixedPoint f s =
     (let ip = takeWhile isDigit (unsigned s);
          rest = dropWhile isDigit (unsigned s)
      in ip \<noteq> [] \<and>
         (if f = 0 then rest = []
          else (case rest of
                  [] \<Rightarrow> False
                | c # fp \<Rightarrow> c = CHR ''.'' \<and> length fp = f \<and> list_all isDigit fp)))"

text \<open>
  \<open>numeralValue s\<close>: the number that a numeral of this form denotes, read digit by
  digit.
\<close>

definition digitValue :: "char \<Rightarrow> nat" where
  "digitValue c = of_char c - 48"

definition digitsValue :: "string \<Rightarrow> nat" where
  "digitsValue ds = foldl (\<lambda>acc c. 10 * acc + digitValue c) 0 ds"

definition numeralValue :: "string \<Rightarrow> rat" where
  "numeralValue s =
     (let ip = takeWhile isDigit (unsigned s);
          fp = drop 1 (dropWhile isDigit (unsigned s));
          mag = of_nat (digitsValue ip) + of_nat (digitsValue fp) / 10 ^ length fp
      in if take 1 s = ''-'' then - mag else mag)"

text \<open>The magnitudes that \<open>toFixed\<close> prints in positional notation.\<close>

definition belowExponent :: "rat \<Rightarrow> bool" where
  "belowExponent x = (\<bar>x\<bar> < 10 ^ 21)"

subsection \<open>Sample inputs\<close>

text \<open>
  The form after a reset, every field empty; the form filled in as in the
  specification's DC example; and the values of its two examples as measurement sets. A decimal such as
  \<open>27.8\<close> stands for the double nearest to it; lemma \<open>sample_voltage_as_double\<close> below
  shows that the check result is the same for both.
\<close>

definition blankForm :: document where
  "blankForm ident = Blank"

definition form28vdc :: document where
  "form28vdc ident =
     (if ident = ''steadyVoltage'' then Entered (Num 27.8)
      else if ident = ''ripple'' then Entered (Num 3)
      else if ident = ''uvDipPercent'' then Entered (Num 10)
      else if ident = ''uvDipDuration'' then Entered (Num 20)
      else if ident = ''ovSurgePercent'' then Entered (Num 10)
      else if ident = ''ovSurgeDuration'' then Entered (Num 20)
      else Blank)"

definition measured28vdc :: measurement where
  "measured28vdc =
     \<lparr>steadyVoltage = Some 27.8, steadyFrequency = None, ripple = Some 3,
      uvDipPercent = Some 10, uvDipDuration = Some 20,
      ovSurgePercent = Some 10, ovSurgeDuration = Some 20\<rparr>"

definition measured115vac :: measurement where
  "measured115vac =
     \<lparr>steadyVoltage = Some 113.5, steadyFrequency = Some 402, ripple = Some 4,
      uvDipPercent = Some 15, uvDipDuration = Some 40,
      ovSurgePercent = Some 25, ovSurgeDuration = Some 40\<rparr>"

definition nothingMeasured :: measurement where
  "nothingMeasured =
     \<lparr>steadyVoltage = None, steadyFrequency = None, ripple = None,
      uvDipPercent = None, uvDipDuration = None,
      ovSurgePercent = None, ovSurgeDuration = None\<rparr>"

text \<open>The reports of the two examples, as the source computes them.\<close>

definition report28vdc :: report where
  "report28vdc =
     \<lparr>checks =
        [\<lparr>label = ''Steady-State Voltage'', pass = True,
          detail = ''Measured: 27.80 V, Allowed: 22.0'' @ enDash @ ''29.0 V''\<rparr>,
         \<lparr>label = ''DC Ripple Voltage'', pass = True,
          detail = ''Measured: 3.00 %, Allowed: '' @ leSign @ '' 5.0 %''\<rparr>,
         \<lparr>label = ''Transient Undervoltage'', pass = True,
          detail = ''Measured: 10.0 % for 20 ms, Allowed: '' @ leSign @ '' 20.0 % for ''
            @ leSign @ '' 50 ms''\<rparr>,
         \<lparr>label = ''Transient Overvoltage'', pass = True,
          detail = ''Measured: 10.0 % for 20 ms, Allowed: '' @ leSign @ '' 20.0 % for ''
            @ leSign @ '' 50 ms''\<rparr>],
      overallPass = True\<rparr>"

definition report115vac :: report where
  "report115vac =
     \<lparr>checks =
        [\<lparr>label = ''Steady-State Voltage'', pass = True,
          detail = ''Measured: 113.50 V, Allowed: 108.0'' @ enDash @ ''118.0 V''\<rparr>,
         \<lparr>label = ''Steady-State Frequency'', pass = True,
          detail = ''Measured: 402.00 Hz, Allowed: 395.0'' @ enDash @ ''405.0 Hz''\<rparr>,
         \<lparr>label = ''AC Distortion / THD'', pass = True,
          detail = ''Measured: 4.00 %, Allowed: '' @ leSign @ '' 5.0 %''\<rparr>,
         \<lparr>label = ''Transient Undervoltage'', pass = True,
          detail = ''Measured: 15.0 % for 40 ms, Allowed: '' @ leSign @ '' 20.0 % for ''
            @ leSign @ '' 50 ms''\<rparr>,
         \<lparr>label = ''Transient Overvoltage'', pass = False,
          detail = ''Measured: 25.0 % for 40 ms, Allowed: '' @ leSign @ '' 20.0 % for ''
            @ leSign @ '' 50 ms''\<rparr>],
      overallPass = False\<rparr>"

section \<open>Properties\<close>

text \<open>
  Closed instances below pass the unspecified function \<^term>\<open>undefined\<close> of HOL for
  \<open>toStr\<close>: none of their magnitudes reaches \<open>10^21\<close>, so \<open>toStr\<close> is never applied
  and the instance holds whatever the runtime prints from there on.
\<close>

subsection \<open>The table and the form fields\<close>

lemma busProfiles_cases:
  assumes "busProfiles k = Entry p"
  obtains "k = ''28vdc''" and "p = dc28" | "k = ''115vac400''" and "p = ac115"
  using assms by (auto simp: busProfiles_def split: if_splits)

lemma busProfiles_Missing_iff:
  "busProfiles k = Missing \<longleftrightarrow>
     k \<noteq> ''28vdc'' \<and> k \<noteq> ''115vac400'' \<and> k \<notin> set objectPrototypeNames"
  by (simp add: busProfiles_def)

lemma busProfiles_rangePresent: "busProfiles k = Entry p \<Longrightarrow> rangePresent p"
  by (erule busProfiles_cases) (simp_all add: rangePresent_def dc28_def ac115_def)

lemma busProfiles_range_ordered:
  "busProfiles k = Entry p \<Longrightarrow> fst (steadyVoltageRange p) \<le> snd (steadyVoltageRange p)"
  by (erule busProfiles_cases) (simp_all add: dc28_def ac115_def)

lemma busProfiles_belowExponent:
  assumes "busProfiles k = Entry p"
  shows "belowExponent (fst (steadyVoltageRange p))" "belowExponent (snd (steadyVoltageRange p))"
    "belowExponent (ripplePercentMax p)"
    "belowExponent (uvDipPercentMax p)" "belowExponent (uvDurationMaxMs p)"
    "belowExponent (ovSurgePercentMax p)" "belowExponent (ovDurationMaxMs p)"
    "frequencyRange p = Some (fMin, fMax) \<Longrightarrow> belowExponent fMin \<and> belowExponent fMax"
  by (rule busProfiles_cases [OF assms]; simp add: dc28_def ac115_def belowExponent_def)+

lemma parseNumber_None_iff:
  "parseNumber doc i = None \<longleftrightarrow>
     doc i = NoElement \<or> doc i = Blank \<or> (\<exists>n. doc i = Entered n \<and> \<not> isFinite n)"
  by (cases "doc i"; simp add: parseNumber_def split: jsnum.splits)

lemma parseNumber_Some_iff:
  "parseNumber doc i = Some x \<longleftrightarrow> doc i = Entered (Num x)"
  by (cases "doc i"; simp add: parseNumber_def split: jsnum.splits)

subsection \<open>Printing\<close>

lemma decimalDigits_one: "n < 10 \<Longrightarrow> decimalDigits n = [digitChar n]"
  by (subst decimalDigits.simps) simp

lemma decimalDigits_more:
  "\<not> n < 10 \<Longrightarrow> decimalDigits n = decimalDigits (n div 10) @ [digitChar (n mod 10)]"
  by (subst decimalDigits.simps) simp

lemma floor_rat_numeral_divide:
  "\<lfloor>numeral a / numeral b :: rat\<rfloor> = numeral a div numeral b"
  by (metis floor_divide_of_int_eq of_int_numeral)

lemma floor_rat_one_divide:
  "\<lfloor>1 / numeral b :: rat\<rfloor> = 1 div numeral b"
  by (metis floor_divide_of_int_eq of_int_1 of_int_numeral)

text \<open>The rules that evaluate \<open>toFixed\<close> on a numeral.\<close>

lemmas toFixed_eval =
  toFixed_def Let_def decimalDigits_one decimalDigits_more digitChar_def
  floor_rat_numeral_divide floor_rat_one_divide

lemma isDigit_digitChar: "n < 10 \<Longrightarrow> isDigit (digitChar n)"
  unfolding isDigit_def digitChar_def by (rule nth_mem) simp

lemma decimalDigits_digits: "list_all isDigit (decimalDigits n) \<and> decimalDigits n \<noteq> []"
proof (induction n rule: decimalDigits.induct)
  case (1 n)
  show ?case
  proof (cases "n < 10")
    case True
    then show ?thesis
      by (simp add: decimalDigits_one isDigit_digitChar)
  next
    case False
    with 1 show ?thesis
      by (simp add: decimalDigits_more isDigit_digitChar)
  qed
qed

lemma unsigned_sign:
  assumes "list_all isDigit a" "a \<noteq> []" "sg = [] \<or> sg = ''-''"
  shows "unsigned (sg @ a @ t) = a @ t"
proof -
  obtain c a' where ct: "a = c # a'" using assms(2) by (cases a) auto
  with assms(1) have "isDigit c" by simp
  then have "c \<noteq> CHR ''-''" by (auto simp: isDigit_def)
  with assms(3) show ?thesis by (auto simp: unsigned_def ct)
qed

lemma fixedPoint_digits:
  assumes a: "list_all isDigit a" "a \<noteq> []"
    and sg: "sg = [] \<or> sg = ''-''"
  shows "fixedPoint 0 (sg @ a)"
proof -
  have u: "unsigned (sg @ a) = a"
    using unsigned_sign [OF a sg, of "[]"] by simp
  have tw: "takeWhile isDigit a = a" "dropWhile isDigit a = []"
    using a(1) by (simp_all add: list_all_iff)
  show ?thesis
    using a(2) by (simp add: fixedPoint_def u tw)
qed

lemma fixedPoint_point:
  assumes a: "list_all isDigit a" "a \<noteq> []"
    and b: "list_all isDigit b" "length b = f" "f \<noteq> 0"
    and sg: "sg = [] \<or> sg = ''-''"
  shows "fixedPoint f (sg @ a @ ''.'' @ b)"
proof -
  have np: "\<not> isDigit CHR ''.''" by (simp add: isDigit_def)
  have u: "unsigned (sg @ a @ CHR ''.'' # b) = a @ CHR ''.'' # b"
    by (rule unsigned_sign [OF a sg])
  have tw: "takeWhile isDigit (a @ CHR ''.'' # b) = a"
    "dropWhile isDigit (a @ CHR ''.'' # b) = CHR ''.'' # b"
    using a(1) np by (simp_all add: list_all_iff)
  show ?thesis
    using a(2) b by (simp add: fixedPoint_def u tw)
qed

text \<open>
  Below \<open>10^21\<close> in magnitude, \<open>toFixed\<close> prints exactly the number of decimal places
  it is asked for.
\<close>

lemma toFixed_fixedPoint:
  assumes "belowExponent x"
  shows "fixedPoint f (toFixed toStr x f)"
proof -
  define s :: string where "s = (if x < 0 then ''-'' else [])"
  define n where "n = nat \<lfloor>(if x < 0 then - x else x) * 10 ^ f + 1 / 2\<rfloor>"
  define m0 where "m0 = decimalDigits n"
  define m where
    "m = (if length m0 \<le> f then replicate (f + 1 - length m0) (CHR ''0'') @ m0 else m0)"
  define k where "k = (if length m0 \<le> f then f + 1 else length m0)"
  have small: "\<not> 10 ^ 21 \<le> (if x < 0 then - x else x)"
    using assms by (auto simp: belowExponent_def abs_if)
  have sg: "s = [] \<or> s = ''-''" by (simp add: s_def)
  have m0: "list_all isDigit m0" "m0 \<noteq> []"
    using decimalDigits_digits [of n] by (simp_all add: m0_def)
  show ?thesis
  proof (cases "f = 0")
    case True
    then have "toFixed toStr x f = s @ m0"
      using small by (simp add: toFixed_def Let_def s_def m0_def n_def)
    then show ?thesis using fixedPoint_digits [OF m0 sg] True by simp
  next
    case False
    have eq: "toFixed toStr x f = s @ take (k - f) m @ ''.'' @ drop (k - f) m"
      using small False
      by (simp add: toFixed_def Let_def s_def m0_def n_def m_def k_def)
    have z: "isDigit CHR ''0''" by (simp add: isDigit_def)
    have md: "list_all isDigit m"
      using m0(1) z by (simp add: m_def list_all_iff)
    have lm: "length m = k" "f < k"
      using m0(2) by (auto simp: m_def k_def)
    have a: "list_all isDigit (take (k - f) m)" "take (k - f) m \<noteq> []"
      using md lm by (auto simp: list_all_iff dest: in_set_takeD)
    have b: "list_all isDigit (drop (k - f) m)" "length (drop (k - f) m) = f"
      using md lm by (auto simp: list_all_iff dest: in_set_dropD)
    show ?thesis
      unfolding eq using fixedPoint_point [OF a b False sg] by simp
  qed
qed

lemma digitValue_digitChar: "d < 10 \<Longrightarrow> digitValue (digitChar d) = d"
proof -
  assume "d < 10"
  then have "d = 0 \<or> d = 1 \<or> d = 2 \<or> d = 3 \<or> d = 4 \<or> d = 5 \<or> d = 6 \<or> d = 7 \<or> d = 8 \<or> d = 9"
    by arith
  then show ?thesis
    by (elim disjE) (simp_all add: digitValue_def digitChar_def)
qed

lemma digitsValue_snoc: "digitsValue (ds @ [c]) = 10 * digitsValue ds + digitValue c"
  by (simp add: digitsValue_def)

lemma digitsValue_Nil: "digitsValue [] = 0"
  by (simp add: digitsValue_def)

lemma digitsValue_append:
  "digitsValue (a @ b) = digitsValue a * 10 ^ length b + digitsValue b"
proof (induction b rule: rev_induct)
  case Nil
  show ?case by (simp add: digitsValue_Nil)
next
  case (snoc c b)
  have "digitsValue (a @ b @ [c]) = 10 * digitsValue (a @ b) + digitValue c"
    using digitsValue_snoc [of "a @ b" c] by simp
  then show ?case
    by (simp add: snoc.IH digitsValue_snoc algebra_simps)
qed

lemma digitsValue_zeros: "digitsValue (replicate z (CHR ''0'')) = 0"
proof (induction z)
  case 0
  show ?case by (simp add: digitsValue_Nil)
next
  case (Suc z)
  have "replicate (Suc z) (CHR ''0'') = replicate z (CHR ''0'') @ [CHR ''0'']"
    by (simp add: replicate_append_same)
  then show ?case
    by (simp only: digitsValue_snoc Suc.IH) (simp add: digitValue_def)
qed

lemma digitsValue_decimalDigits: "digitsValue (decimalDigits n) = n"
proof (induction n rule: decimalDigits.induct)
  case (1 n)
  show ?case
  proof (cases "n < 10")
    case True
    then show ?thesis
      using digitsValue_snoc [of "[]" "digitChar n"]
      by (simp add: decimalDigits_one digitsValue_Nil digitValue_digitChar)
  next
    case False
    with 1 show ?thesis
      by (simp add: decimalDigits_more digitsValue_snoc digitValue_digitChar)
  qed
qed

lemma numeralValue_digits:
  assumes a: "list_all isDigit a" "a \<noteq> []"
    and sg: "sg = [] \<or> sg = ''-''"
  shows "numeralValue (sg @ a) =
    (if sg = [] then of_nat (digitsValue a) else - of_nat (digitsValue a))"
proof -
  have u: "unsigned (sg @ a) = a"
    using unsigned_sign [OF a sg, of "[]"] by simp
  have tw: "takeWhile isDigit a = a" "dropWhile isDigit a = []"
    using a(1) by (simp_all add: list_all_iff)
  obtain c a' where ct: "a = c # a'" using a(2) by (cases a) auto
  with a(1) have "isDigit c" by simp
  then have "c \<noteq> CHR ''-''" by (auto simp: isDigit_def)
  then have hd: "take 1 (sg @ a) = ''-'' \<longleftrightarrow> sg \<noteq> []"
    using sg by (auto simp: ct)
  show ?thesis
    unfolding numeralValue_def u tw hd by (simp add: digitsValue_Nil)
qed

lemma numeralValue_point:
  assumes a: "list_all isDigit a" "a \<noteq> []"
    and b: "list_all isDigit b"
    and sg: "sg = [] \<or> sg = ''-''"
  shows "numeralValue (sg @ a @ ''.'' @ b) =
    (if sg = [] then 1 else - 1) * of_nat (digitsValue (a @ b)) / 10 ^ length b"
proof -
  have np: "\<not> isDigit CHR ''.''" by (simp add: isDigit_def)
  have u: "unsigned (sg @ a @ ''.'' @ b) = a @ CHR ''.'' # b"
    using unsigned_sign [OF a sg, of "CHR ''.'' # b"] by simp
  have tw: "takeWhile isDigit (a @ CHR ''.'' # b) = a"
    "dropWhile isDigit (a @ CHR ''.'' # b) = CHR ''.'' # b"
    using a(1) np by (simp_all add: list_all_iff)
  obtain c a' where ct: "a = c # a'" using a(2) by (cases a) auto
  with a(1) have "isDigit c" by simp
  then have "c \<noteq> CHR ''-''" by (auto simp: isDigit_def)
  then have hd: "take 1 (sg @ a @ ''.'' @ b) = ''-'' \<longleftrightarrow> sg \<noteq> []"
    using sg by (auto simp: ct)
  show ?thesis
    unfolding numeralValue_def u tw hd
    by (simp add: digitsValue_append field_simps)
qed

text \<open>What \<open>toFixed\<close> prints denotes the multiple of \<open>10^-f\<close> nearest to the value.\<close>

lemma toFixed_numeralValue:
  assumes "belowExponent x"
  shows "numeralValue (toFixed toStr x f) =
    (if x < 0 then - 1 else 1) * of_nat (nat \<lfloor>\<bar>x\<bar> * 10 ^ f + 1 / 2\<rfloor>) / 10 ^ f"
proof -
  define s :: string where "s = (if x < 0 then ''-'' else [])"
  define n where "n = nat \<lfloor>(if x < 0 then - x else x) * 10 ^ f + 1 / 2\<rfloor>"
  define m0 where "m0 = decimalDigits n"
  define m where
    "m = (if length m0 \<le> f then replicate (f + 1 - length m0) (CHR ''0'') @ m0 else m0)"
  define k where "k = (if length m0 \<le> f then f + 1 else length m0)"
  have small: "\<not> 10 ^ 21 \<le> (if x < 0 then - x else x)"
    using assms by (auto simp: belowExponent_def abs_if)
  have n: "n = nat \<lfloor>\<bar>x\<bar> * 10 ^ f + 1 / 2\<rfloor>"
    by (simp add: n_def abs_if)
  have sg: "s = [] \<or> s = ''-''" and s: "s = [] \<longleftrightarrow> \<not> x < 0" by (simp_all add: s_def)
  have m0: "list_all isDigit m0" "m0 \<noteq> []"
    using decimalDigits_digits [of n] by (simp_all add: m0_def)
  have v0: "digitsValue m0 = n"
    by (simp add: m0_def digitsValue_decimalDigits)
  show ?thesis
  proof (cases "f = 0")
    case True
    then have "toFixed toStr x f = s @ m0"
      using small by (simp add: toFixed_def Let_def s_def m0_def n_def)
    then show ?thesis
      using numeralValue_digits [OF m0 sg] True by (simp add: v0 s n)
  next
    case False
    have eq: "toFixed toStr x f = s @ take (k - f) m @ ''.'' @ drop (k - f) m"
      using small False
      by (simp add: toFixed_def Let_def s_def m0_def n_def m_def k_def)
    have z: "isDigit CHR ''0''" by (simp add: isDigit_def)
    have md: "list_all isDigit m"
      using m0(1) z by (simp add: m_def list_all_iff)
    have lm: "length m = k" "f < k"
      using m0(2) by (auto simp: m_def k_def)
    have a: "list_all isDigit (take (k - f) m)" "take (k - f) m \<noteq> []"
      using md lm by (auto simp: list_all_iff dest: in_set_takeD)
    have b: "list_all isDigit (drop (k - f) m)" "length (drop (k - f) m) = f"
      using md lm by (auto simp: list_all_iff dest: in_set_dropD)
    have vm: "digitsValue m = n"
      by (simp add: m_def digitsValue_append digitsValue_zeros v0)
    show ?thesis
      unfolding eq numeralValue_point [OF a b(1) sg] b(2)
      by (simp add: vm s n)
  qed
qed

lemma round_half_up_near:
  fixes y :: rat
  assumes "0 \<le> y"
  shows "\<bar>of_nat (nat \<lfloor>y + 1 / 2\<rfloor>) - y\<bar> \<le> 1 / 2"
proof -
  have "0 \<le> \<lfloor>y + 1 / 2\<rfloor>" using assms by simp
  then have "(of_nat (nat \<lfloor>y + 1 / 2\<rfloor>) :: rat) = of_int \<lfloor>y + 1 / 2\<rfloor>"
    by simp
  moreover have "of_int \<lfloor>y + 1 / 2\<rfloor> \<le> y + 1 / 2" "y + 1 / 2 < of_int \<lfloor>y + 1 / 2\<rfloor> + 1"
    by linarith+
  ultimately show ?thesis by linarith
qed

lemma toFixed_nearest:
  assumes "belowExponent x"
  shows "\<bar>numeralValue (toFixed toStr x f) - x\<bar> \<le> 1 / (2 * 10 ^ f)"
proof -
  define n where "n = nat \<lfloor>\<bar>x\<bar> * 10 ^ f + 1 / 2\<rfloor>"
  have near: "\<bar>of_nat n - \<bar>x\<bar> * 10 ^ f\<bar> \<le> 1 / 2"
    unfolding n_def by (rule round_half_up_near) simp
  have "\<bar>of_nat n / 10 ^ f - \<bar>x\<bar>\<bar> = \<bar>of_nat n - \<bar>x\<bar> * 10 ^ f\<bar> / 10 ^ f"
    by (simp add: field_simps abs_divide)
  also have "\<dots> \<le> (1 / 2) / 10 ^ f"
    by (rule divide_right_mono [OF near]) simp
  finally have mag: "\<bar>of_nat n / 10 ^ f - \<bar>x\<bar>\<bar> \<le> 1 / (2 * 10 ^ f)"
    by simp
  show ?thesis
  proof (cases "x < 0")
    case True
    then have "numeralValue (toFixed toStr x f) - x = - (of_nat n / 10 ^ f - \<bar>x\<bar>)"
      by (simp add: toFixed_numeralValue [OF assms] n_def)
    then show ?thesis using mag by simp
  next
    case False
    then have "numeralValue (toFixed toStr x f) - x = of_nat n / 10 ^ f - \<bar>x\<bar>"
      by (simp add: toFixed_numeralValue [OF assms] n_def)
    then show ?thesis using mag by simp
  qed
qed

subsection \<open>The single checks\<close>

lemma frequencyCheck_DC:
  "\<not> hasFrequency p \<Longrightarrow> frequencyCheck toStr p fr = Inr []"
  by (simp add: frequencyCheck_def)

lemma frequencyCheck_AC_None:
  "hasFrequency p \<Longrightarrow> frequencyCheck toStr p None =
     Inr [\<lparr>label = ''Steady-State Frequency'', pass = False,
           detail = ''No measured frequency provided for AC bus.''\<rparr>]"
  by (simp add: frequencyCheck_def)

lemma frequencyCheck_AC_Some:
  "hasFrequency p \<Longrightarrow> frequencyRange p = Some (fMin, fMax) \<Longrightarrow>
   frequencyCheck toStr p (Some fr) =
     Inr [\<lparr>label = ''Steady-State Frequency'', pass = (fMin \<le> fr \<and> fr \<le> fMax),
           detail = ''Measured: '' @ toFixed toStr fr 2 @ '' Hz, Allowed: ''
             @ toFixed toStr fMin 1 @ enDash @ toFixed toStr fMax 1 @ '' Hz''\<rparr>]"
  by (simp add: frequencyCheck_def)

lemma frequencyCheck_shape:
  "frequencyCheck toStr p fr = Inr pushed \<Longrightarrow>
   map label pushed = (if hasFrequency p then [''Steady-State Frequency''] else [])"
  by (auto simp: frequencyCheck_def split: if_splits option.splits)

lemma frequencyCheck_total:
  "rangePresent p \<Longrightarrow> \<exists>pushed. frequencyCheck toStr p fr = Inr pushed"
  by (auto simp: frequencyCheck_def rangePresent_def split: option.splits)

lemma label_steadyVoltageCheck:
  "label (steadyVoltageCheck toStr p v) = ''Steady-State Voltage''"
  by (simp add: steadyVoltageCheck_def split: option.splits prod.splits)

lemma label_rippleCheck:
  "label (rippleCheck toStr p v) =
     (if hasFrequency p then ''AC Distortion / THD'' else ''DC Ripple Voltage'')"
  by (simp add: rippleCheck_def Let_def split: option.splits)

lemma label_undervoltageCheck:
  "label (undervoltageCheck toStr p a b) = ''Transient Undervoltage''"
  by (simp add: undervoltageCheck_def Let_def split: option.splits)

lemma label_overvoltageCheck:
  "label (overvoltageCheck toStr p a b) = ''Transient Overvoltage''"
  by (simp add: overvoltageCheck_def Let_def split: option.splits)

lemma pass_steadyVoltageCheck:
  "steadyVoltageRange p = (vMin, vMax) \<Longrightarrow>
   pass (steadyVoltageCheck toStr p (Some v)) = (vMin \<le> v \<and> v \<le> vMax)"
  by (simp add: steadyVoltageCheck_def)

lemma pass_undervoltageCheck:
  "pass (undervoltageCheck toStr p pc du) =
     (\<exists>x y. pc = Some x \<and> du = Some y \<and> x \<le> uvDipPercentMax p \<and> y \<le> uvDurationMaxMs p)"
  by (cases pc; cases du; simp add: undervoltageCheck_def)

lemma pass_overvoltageCheck:
  "pass (overvoltageCheck toStr p pc du) =
     (\<exists>x y. pc = Some x \<and> du = Some y \<and> x \<le> ovSurgePercentMax p \<and> y \<le> ovDurationMaxMs p)"
  by (cases pc; cases du; simp add: overvoltageCheck_def)

lemma steadyVoltageCheck_None:
  "steadyVoltageCheck toStr p None =
     \<lparr>label = ''Steady-State Voltage'', pass = False,
      detail = ''No measured voltage provided.''\<rparr>"
  by (simp add: steadyVoltageCheck_def)

lemma rippleCheck_None:
  "rippleCheck toStr p None =
     \<lparr>label = (if hasFrequency p then ''AC Distortion / THD'' else ''DC Ripple Voltage''),
      pass = False, detail = ''No ripple / distortion value provided.''\<rparr>"
  by (simp add: rippleCheck_def)

lemma undervoltageCheck_None:
  "pc = None \<or> du = None \<Longrightarrow>
   undervoltageCheck toStr p pc du =
     \<lparr>label = ''Transient Undervoltage'', pass = False,
      detail = ''Undervoltage dip percent and/or duration not provided.''\<rparr>"
  by (cases pc; cases du; simp add: undervoltageCheck_def)

lemma overvoltageCheck_None:
  "pc = None \<or> du = None \<Longrightarrow>
   overvoltageCheck toStr p pc du =
     \<lparr>label = ''Transient Overvoltage'', pass = False,
      detail = ''Overvoltage surge percent and/or duration not provided.''\<rparr>"
  by (cases pc; cases du; simp add: overvoltageCheck_def)

subsection \<open>The evaluation as a whole\<close>

lemma evaluate_Inr:
  "frequencyCheck toStr p (steadyFrequency m) = Inr pushed \<Longrightarrow>
   evaluate toStr p m =
     Inr \<lparr>checks =
            steadyVoltageCheck toStr p (steadyVoltage m) # pushed @
            [rippleCheck toStr p (ripple m),
             undervoltageCheck toStr p (uvDipPercent m) (uvDipDuration m),
             overvoltageCheck toStr p (ovSurgePercent m) (ovSurgeDuration m)],
          overallPass = list_all pass
            (steadyVoltageCheck toStr p (steadyVoltage m) # pushed @
             [rippleCheck toStr p (ripple m),
              undervoltageCheck toStr p (uvDipPercent m) (uvDipDuration m),
              overvoltageCheck toStr p (ovSurgePercent m) (ovSurgeDuration m)])\<rparr>"
  by (simp add: evaluate_def)

lemma evaluate_Inl:
  "frequencyCheck toStr p (steadyFrequency m) = Inl e \<Longrightarrow> evaluate toStr p m = Inl e"
  by (simp add: evaluate_def)

lemma evaluate_cases:
  assumes "evaluate toStr p m = Inr r"
  obtains pushed where "frequencyCheck toStr p (steadyFrequency m) = Inr pushed"
    and "checks r = steadyVoltageCheck toStr p (steadyVoltage m) # pushed @
            [rippleCheck toStr p (ripple m),
             undervoltageCheck toStr p (uvDipPercent m) (uvDipDuration m),
             overvoltageCheck toStr p (ovSurgePercent m) (ovSurgeDuration m)]"
    and "overallPass r = list_all pass (checks r)"
  using assms by (auto simp: evaluate_def split: sum.splits)

text \<open>
  The one exception the evaluation can end in: a profile that announces a frequency and
  carries no range, with a frequency entered. No profile of the table is of this kind.
\<close>

lemma frequency_range_missing:
  "hasFrequency p \<Longrightarrow> frequencyRange p = None \<Longrightarrow> steadyFrequency m = Some fr \<Longrightarrow>
   evaluate toStr p m = Inl TypeError"
  by (simp add: evaluate_Inl frequencyCheck_def)

lemma evaluate_total_iff:
  "(\<exists>r. evaluate toStr p m = Inr r) \<longleftrightarrow>
     \<not> (hasFrequency p \<and> frequencyRange p = None \<and> steadyFrequency m \<noteq> None)"
  by (auto simp: evaluate_def frequencyCheck_def split: option.splits)

subsection \<open>The sample inputs\<close>

lemmas check_defs =
  steadyVoltageCheck_def frequencyCheck_def rippleCheck_def undervoltageCheck_def
  overvoltageCheck_def

lemma evaluate_measured28vdc: "evaluate toStr dc28 measured28vdc = Inr report28vdc"
  by (simp add: evaluate_def check_defs toFixed_eval dc28_def measured28vdc_def report28vdc_def)

lemma evaluate_measured115vac: "evaluate toStr ac115 measured115vac = Inr report115vac"
  by (simp add: evaluate_def check_defs toFixed_eval ac115_def measured115vac_def
      report115vac_def)

lemma run_form28vdc: "runComplianceCheck toStr ''28vdc'' form28vdc = Inr report28vdc"
proof -
  have "runComplianceCheck toStr ''28vdc'' form28vdc = evaluate toStr dc28 measured28vdc"
    by (simp add: runComplianceCheck_def busProfiles_def parseNumber_def form28vdc_def
        measured28vdc_def)
  then show ?thesis
    by (simp only: evaluate_measured28vdc)
qed

text \<open>
  A key that names an inherited member: with the form empty the handler renders a report
  of four failing checks; with the DC example entered it throws at line 101.
\<close>

lemma inherited_member_blank_form:
  "runComplianceCheck toStr ''constructor'' blankForm =
     Inr \<lparr>checks =
            [\<lparr>label = ''Steady-State Voltage'', pass = False,
              detail = ''No measured voltage provided.''\<rparr>,
             \<lparr>label = ''DC Ripple Voltage'', pass = False,
              detail = ''No ripple / distortion value provided.''\<rparr>,
             \<lparr>label = ''Transient Undervoltage'', pass = False,
              detail = ''Undervoltage dip percent and/or duration not provided.''\<rparr>,
             \<lparr>label = ''Transient Overvoltage'', pass = False,
              detail = ''Overvoltage surge percent and/or duration not provided.''\<rparr>],
          overallPass = False\<rparr>"
  by (simp add: runComplianceCheck_def busProfiles_def objectPrototypeNames_def
      evaluateInherited_def parseNumber_def blankForm_def)

lemma inherited_member_with_values:
  "runComplianceCheck toStr ''constructor'' form28vdc = Inl TypeError"
  by (simp add: runComplianceCheck_def busProfiles_def objectPrototypeNames_def
      evaluateInherited_def parseNumber_def form28vdc_def)

text \<open>
  The double nearest to \<open>27.8\<close> is \<open>7825004352556237 / 2^48\<close>; the voltage check
  cannot tell it from \<open>27.8\<close>.
\<close>

lemma sample_voltage_as_double:
  "steadyVoltageCheck toStr dc28 (Some (7825004352556237 / 281474976710656)) =
   steadyVoltageCheck toStr dc28 (Some 27.8)"
  by (simp add: steadyVoltageCheck_def toFixed_eval dc28_def)


section \<open>The statements of the specification, C1 to C10\<close>

subsection \<open>C1: the overall verdict\<close>

text \<open>
  C1. For every profile and every measurement set, the overall pass flag of the report
  is true if and only if every check result in the report has \<open>pass = true\<close>: the
  conjunction over exactly the checks present in the report.
\<close>

theorem overallPass_iff_every_check:
  "evaluate toStr p m = Inr r \<Longrightarrow> overallPass r = (\<forall>c \<in> set (checks r). pass c)"
  by (erule evaluate_cases) (simp only: list_all_iff)

text \<open>
  Both directions at the two examples: every check of the DC report passes and the
  verdict is true; the overvoltage check of the AC report fails and the verdict is false.
\<close>

theorem overallPass_iff_every_check_witness:
  "evaluate undefined dc28 measured28vdc = Inr report28vdc
   \<and> overallPass report28vdc = (\<forall>c \<in> set (checks report28vdc). pass c)
   \<and> overallPass report28vdc
   \<and> evaluate undefined ac115 measured115vac = Inr report115vac
   \<and> overallPass report115vac = (\<forall>c \<in> set (checks report115vac). pass c)
   \<and> \<not> overallPass report115vac"
proof -
  have dc: "evaluate undefined dc28 measured28vdc = Inr report28vdc"
    by (rule evaluate_measured28vdc)
  have ac: "evaluate undefined ac115 measured115vac = Inr report115vac"
    by (rule evaluate_measured115vac)
  have "overallPass report28vdc" "\<not> overallPass report115vac"
    by (simp_all add: report28vdc_def report115vac_def)
  with dc ac overallPass_iff_every_check [OF dc] overallPass_iff_every_check [OF ac]
  show ?thesis by (simp only: simp_thms)
qed

subsection \<open>C2: a bus type outside the table\<close>

text \<open>
  C2 as stated asks for a \<open>NotFound\<close> condition and for no report, on every identifier
  that is not a key of the table. The source has no lookup guard. With the key
  \<open>270vdc\<close> and an empty form the handler ends in the runtime's \<open>TypeError\<close>, which is
  not \<open>NotFound\<close> and which nothing catches. With the key \<open>constructor\<close>, no key of the
  table either, the lookup yields an inherited member, and on an empty form the handler
  does not fail at all: it hands a report of four failing checks to the rendering calls.
\<close>

theorem unknown_bus_type_is_not_NotFound:
  "busProfiles ''270vdc'' = Missing
   \<and> runComplianceCheck undefined ''270vdc'' blankForm = Inl TypeError
   \<and> runComplianceCheck undefined ''270vdc'' blankForm \<noteq> Inl NotFound
   \<and> busProfiles ''constructor'' = Inherited
   \<and> runComplianceCheck undefined ''constructor'' blankForm =
       Inr \<lparr>checks =
              [\<lparr>label = ''Steady-State Voltage'', pass = False,
                detail = ''No measured voltage provided.''\<rparr>,
               \<lparr>label = ''DC Ripple Voltage'', pass = False,
                detail = ''No ripple / distortion value provided.''\<rparr>,
               \<lparr>label = ''Transient Undervoltage'', pass = False,
                detail = ''Undervoltage dip percent and/or duration not provided.''\<rparr>,
               \<lparr>label = ''Transient Overvoltage'', pass = False,
                detail = ''Overvoltage surge percent and/or duration not provided.''\<rparr>],
            overallPass = False\<rparr>"
  by (simp add: runComplianceCheck_def busProfiles_def objectPrototypeNames_def
      evaluateUndefined_def evaluateInherited_def parseNumber_def blankForm_def)

text \<open>
  C2, amended. For every bus-type identifier for which the table lookup is \<open>undefined\<close>
  (neither a key of the table nor the name of a member the table object inherits),
  whatever the form holds, the handler ends in an uncaught \<open>TypeError\<close> (a property read
  of \<open>undefined\<close>) before it reaches the rendering calls: no report is produced or
  rendered.
\<close>

theorem unknown_bus_type_throws:
  "busProfiles busKey = Missing \<Longrightarrow> runComplianceCheck toStr busKey doc = Inl TypeError"
  by (simp add: runComplianceCheck_def evaluateUndefined_def split: option.splits)

theorem unknown_bus_type_throws_witness:
  "busProfiles ''115vac'' = Missing
   \<and> runComplianceCheck undefined ''115vac'' form28vdc = Inl TypeError"
proof -
  have "busProfiles ''115vac'' = Missing"
    by (simp add: busProfiles_Missing_iff objectPrototypeNames_def)
  then show ?thesis
    using unknown_bus_type_throws [of "''115vac''" undefined form28vdc] by simp
qed

subsection \<open>C3: the steady-state voltage range is inclusive\<close>

text \<open>
  C3. For every profile and every provided steady-state voltage \<open>v\<close>, the steady-state
  voltage check passes if and only if \<open>min \<le> v \<le> max\<close> for the profile's range, both
  bounds inclusive; in particular \<open>v = min\<close> and \<open>v = max\<close> pass, on every profile of
  the table and on every other profile with \<open>min \<le> max\<close>, and \<open>v = min - 0.01\<close> and
  \<open>v = max + 0.01\<close> fail. The check is the first of the report.
\<close>

theorem steadyVoltage_inclusive_range:
  assumes range: "steadyVoltageRange p = (vMin, vMax)"
  shows "pass (steadyVoltageCheck toStr p (Some v)) = (vMin \<le> v \<and> v \<le> vMax)
    \<and> (busProfiles k = Entry p \<or> vMin \<le> vMax \<longrightarrow>
          pass (steadyVoltageCheck toStr p (Some vMin)) \<and>
          pass (steadyVoltageCheck toStr p (Some vMax)))
    \<and> \<not> pass (steadyVoltageCheck toStr p (Some (vMin - 0.01)))
    \<and> \<not> pass (steadyVoltageCheck toStr p (Some (vMax + 0.01)))
    \<and> (evaluate toStr p m = Inr r \<longrightarrow>
          hd (checks r) = steadyVoltageCheck toStr p (steadyVoltage m))"
proof -
  have "evaluate toStr p m = Inr r \<Longrightarrow>
      hd (checks r) = steadyVoltageCheck toStr p (steadyVoltage m)"
    by (erule evaluate_cases) simp
  moreover have "busProfiles k = Entry p \<Longrightarrow> vMin \<le> vMax"
    using busProfiles_range_ordered [of k p] range by simp
  ultimately show ?thesis
    by (auto simp: pass_steadyVoltageCheck [OF range])
qed

theorem steadyVoltage_inclusive_range_witness:
  "steadyVoltageRange dc28 = (22, 29)
   \<and> pass (steadyVoltageCheck undefined dc28 (Some 27.8))
   \<and> pass (steadyVoltageCheck undefined dc28 (Some 22))
   \<and> pass (steadyVoltageCheck undefined dc28 (Some 29))
   \<and> \<not> pass (steadyVoltageCheck undefined dc28 (Some (22 - 0.01)))
   \<and> \<not> pass (steadyVoltageCheck undefined dc28 (Some (29 + 0.01)))
   \<and> evaluate undefined dc28 measured28vdc = Inr report28vdc
   \<and> hd (checks report28vdc) = steadyVoltageCheck undefined dc28 (steadyVoltage measured28vdc)"
proof -
  have range: "steadyVoltageRange dc28 = (22, 29)"
    by (simp add: dc28_def)
  have ev: "evaluate undefined dc28 measured28vdc = Inr report28vdc"
    by (rule evaluate_measured28vdc)
  from range ev
    steadyVoltage_inclusive_range [OF range, where v = "27.8" and toStr = undefined
      and m = measured28vdc and r = report28vdc and k = "''28vdc''"]
  show ?thesis by simp
qed

subsection \<open>C4: a missing value fails its check and nothing else\<close>

text \<open>
  C4. For every profile of the table, and for every other profile that carries the
  frequency range its flag announces, and for every measurement set, the evaluation
  returns a report and does not throw; the report holds all its checks, five with a frequency and four without;
  and for each of the seven fields that is absent, the check of that field is in the
  report with \<open>pass = false\<close> and the detail that names the missing value. The one
  exception: on a profile without frequency the report holds no frequency check at all.
  A field is absent exactly when the form has no such element, or its value is empty
  after trimming, or its value is not a finite number.
\<close>

theorem missing_field_fails_its_check:
  assumes profile: "busProfiles k = Entry p \<or> rangePresent p"
  shows "(parseNumber doc ident = None \<longleftrightarrow>
       doc ident = NoElement \<or> doc ident = Blank \<or>
       (\<exists>n. doc ident = Entered n \<and> \<not> isFinite n))
    \<and> (\<exists>r. evaluate toStr p m = Inr r
    \<and> length (checks r) = (if hasFrequency p then 5 else 4)
    \<and> (steadyVoltage m = None \<longrightarrow>
         \<lparr>label = ''Steady-State Voltage'', pass = False,
          detail = ''No measured voltage provided.''\<rparr> \<in> set (checks r))
    \<and> (steadyFrequency m = None \<longrightarrow>
         (if hasFrequency p
          then \<lparr>label = ''Steady-State Frequency'', pass = False,
                detail = ''No measured frequency provided for AC bus.''\<rparr> \<in> set (checks r)
          else filter frequencyLabelled (checks r) = []))
    \<and> (ripple m = None \<longrightarrow>
         \<lparr>label = (if hasFrequency p then ''AC Distortion / THD'' else ''DC Ripple Voltage''),
          pass = False,
          detail = ''No ripple / distortion value provided.''\<rparr> \<in> set (checks r))
    \<and> (uvDipPercent m = None \<or> uvDipDuration m = None \<longrightarrow>
         \<lparr>label = ''Transient Undervoltage'', pass = False,
          detail = ''Undervoltage dip percent and/or duration not provided.''\<rparr>
           \<in> set (checks r))
    \<and> (ovSurgePercent m = None \<or> ovSurgeDuration m = None \<longrightarrow>
         \<lparr>label = ''Transient Overvoltage'', pass = False,
          detail = ''Overvoltage surge percent and/or duration not provided.''\<rparr>
           \<in> set (checks r)))"
    (is "?absent \<and> ?report")
proof
  show ?absent
    by (rule parseNumber_None_iff)
next
  have wf: "rangePresent p"
    using profile busProfiles_rangePresent by blast
  obtain pushed where f: "frequencyCheck toStr p (steadyFrequency m) = Inr pushed"
    using frequencyCheck_total [OF wf] by blast
  let ?cs = "steadyVoltageCheck toStr p (steadyVoltage m) # pushed @
            [rippleCheck toStr p (ripple m),
             undervoltageCheck toStr p (uvDipPercent m) (uvDipDuration m),
             overvoltageCheck toStr p (ovSurgePercent m) (ovSurgeDuration m)]"
  let ?r = "\<lparr>checks = ?cs, overallPass = list_all pass ?cs\<rparr>"
  have ev: "evaluate toStr p m = Inr ?r"
    using f by (rule evaluate_Inr)
  have len: "length pushed = (if hasFrequency p then 1 else 0)"
    using arg_cong [OF frequencyCheck_shape [OF f], of length] by (simp split: if_splits)
  have freq: "steadyFrequency m = None \<Longrightarrow> hasFrequency p \<Longrightarrow>
      pushed = [\<lparr>label = ''Steady-State Frequency'', pass = False,
                detail = ''No measured frequency provided for AC bus.''\<rparr>]"
    using f by (simp add: frequencyCheck_AC_None)
  have nofreq: "\<not> hasFrequency p \<Longrightarrow> filter frequencyLabelled ?cs = []"
    using len
    by (simp add: frequencyLabelled_def label_steadyVoltageCheck label_rippleCheck
        label_undervoltageCheck label_overvoltageCheck)
  show ?report
  proof (intro exI [of _ ?r] conjI impI)
    show "evaluate toStr p m = Inr ?r" by (rule ev)
    show "length (checks ?r) = (if hasFrequency p then 5 else 4)"
      by (simp add: len)
  next
    assume "steadyVoltage m = None"
    then show "\<lparr>label = ''Steady-State Voltage'', pass = False,
          detail = ''No measured voltage provided.''\<rparr> \<in> set (checks ?r)"
      by (simp add: steadyVoltageCheck_None)
  next
    assume "steadyFrequency m = None"
    then show "if hasFrequency p
          then \<lparr>label = ''Steady-State Frequency'', pass = False,
                detail = ''No measured frequency provided for AC bus.''\<rparr> \<in> set (checks ?r)
          else filter frequencyLabelled (checks ?r) = []"
      using freq nofreq by (cases "hasFrequency p") simp_all
  next
    assume "ripple m = None"
    then show "\<lparr>label = (if hasFrequency p then ''AC Distortion / THD'' else ''DC Ripple Voltage''),
          pass = False,
          detail = ''No ripple / distortion value provided.''\<rparr> \<in> set (checks ?r)"
      by (simp add: rippleCheck_None)
  next
    assume "uvDipPercent m = None \<or> uvDipDuration m = None"
    then show "\<lparr>label = ''Transient Undervoltage'', pass = False,
          detail = ''Undervoltage dip percent and/or duration not provided.''\<rparr>
           \<in> set (checks ?r)"
      by (simp add: undervoltageCheck_None)
  next
    assume "ovSurgePercent m = None \<or> ovSurgeDuration m = None"
    then show "\<lparr>label = ''Transient Overvoltage'', pass = False,
          detail = ''Overvoltage surge percent and/or duration not provided.''\<rparr>
           \<in> set (checks ?r)"
      by (simp add: overvoltageCheck_None)
  qed
qed

text \<open>The AC profile with nothing entered: five checks, each failing with its message.\<close>

theorem missing_field_fails_its_check_witness:
  "busProfiles ''115vac400'' = Entry ac115
   \<and> parseNumber blankForm ''ripple'' = None
   \<and> (\<exists>r. evaluate undefined ac115 nothingMeasured = Inr r
        \<and> length (checks r) = 5
        \<and> \<lparr>label = ''Steady-State Voltage'', pass = False,
            detail = ''No measured voltage provided.''\<rparr> \<in> set (checks r)
        \<and> \<lparr>label = ''Steady-State Frequency'', pass = False,
            detail = ''No measured frequency provided for AC bus.''\<rparr> \<in> set (checks r)
        \<and> \<lparr>label = ''AC Distortion / THD'', pass = False,
            detail = ''No ripple / distortion value provided.''\<rparr> \<in> set (checks r)
        \<and> \<lparr>label = ''Transient Undervoltage'', pass = False,
            detail = ''Undervoltage dip percent and/or duration not provided.''\<rparr>
             \<in> set (checks r)
        \<and> \<lparr>label = ''Transient Overvoltage'', pass = False,
            detail = ''Overvoltage surge percent and/or duration not provided.''\<rparr>
             \<in> set (checks r))"
proof -
  have key: "busProfiles ''115vac400'' = Entry ac115"
    by (simp add: busProfiles_def)
  have ac: "hasFrequency ac115"
    by (simp add: ac115_def)
  have blank: "blankForm ''ripple'' = Blank"
    by (simp add: blankForm_def)
  from key ac blank
    missing_field_fails_its_check [OF disjI1 [OF key], where doc = blankForm
      and ident = "''ripple''" and toStr = undefined and m = nothingMeasured]
  show ?thesis
    by (simp add: nothingMeasured_def)
qed

subsection \<open>C5: the frequency check exists on AC profiles only\<close>

text \<open>
  C5. For every profile with \<open>hasFrequency = false\<close> and every measurement set, the
  report contains no frequency check, whether or not a frequency was supplied. For every
  profile with \<open>hasFrequency = true\<close> and frequency range \<open>[fMin, fMax]\<close>, the report
  contains exactly one frequency check; it passes iff a frequency is provided and lies
  within the range, bounds included, and fails when the frequency is absent.
\<close>

theorem frequency_check_only_on_AC:
  "(\<not> hasFrequency p \<longrightarrow>
      (\<exists>r. evaluate toStr p m = Inr r \<and> filter frequencyLabelled (checks r) = []))
   \<and> (hasFrequency p \<and> frequencyRange p = Some (fMin, fMax) \<longrightarrow>
      (\<exists>r c. evaluate toStr p m = Inr r \<and> filter frequencyLabelled (checks r) = [c]
         \<and> pass c = (case steadyFrequency m of
                        None \<Rightarrow> False
                      | Some fr \<Rightarrow> fMin \<le> fr \<and> fr \<le> fMax)))"
proof (intro conjI impI)
  assume dc: "\<not> hasFrequency p"
  have "frequencyCheck toStr p (steadyFrequency m) = Inr []"
    using dc by (rule frequencyCheck_DC)
  then show "\<exists>r. evaluate toStr p m = Inr r \<and> filter frequencyLabelled (checks r) = []"
    using dc
    by (simp add: evaluate_Inr frequencyLabelled_def label_steadyVoltageCheck label_rippleCheck
        label_undervoltageCheck label_overvoltageCheck)
next
  assume ac: "hasFrequency p \<and> frequencyRange p = Some (fMin, fMax)"
  show "\<exists>r c. evaluate toStr p m = Inr r \<and> filter frequencyLabelled (checks r) = [c]
         \<and> pass c = (case steadyFrequency m of
                        None \<Rightarrow> False
                      | Some fr \<Rightarrow> fMin \<le> fr \<and> fr \<le> fMax)"
  proof (cases "steadyFrequency m")
    case None
    with ac show ?thesis
      by (simp add: evaluate_Inr frequencyCheck_AC_None frequencyLabelled_def
          label_steadyVoltageCheck label_rippleCheck label_undervoltageCheck
          label_overvoltageCheck)
  next
    case (Some fr)
    with ac show ?thesis
      by (simp add: evaluate_Inr frequencyCheck_AC_Some frequencyLabelled_def
          label_steadyVoltageCheck label_rippleCheck label_undervoltageCheck
          label_overvoltageCheck)
  qed
qed

text \<open>
  The AC example's measurements, frequency 402 included, on both profiles: no frequency
  check on the DC bus, one passing frequency check on the AC bus.
\<close>

theorem frequency_check_only_on_AC_witness:
  "\<not> hasFrequency dc28
   \<and> steadyFrequency measured115vac = Some 402
   \<and> (\<exists>r. evaluate undefined dc28 measured115vac = Inr r
        \<and> filter frequencyLabelled (checks r) = [])
   \<and> hasFrequency ac115
   \<and> frequencyRange ac115 = Some (395, 405)
   \<and> (\<exists>r c. evaluate undefined ac115 measured115vac = Inr r
        \<and> filter frequencyLabelled (checks r) = [c] \<and> pass c)"
proof -
  have dc: "\<not> hasFrequency dc28"
    by (simp add: dc28_def)
  have ac: "hasFrequency ac115" "frequencyRange ac115 = Some (395, 405)"
    by (simp_all add: ac115_def)
  have fr: "steadyFrequency measured115vac = Some 402"
    by (simp add: measured115vac_def)
  from dc ac fr
    frequency_check_only_on_AC [where p = dc28 and toStr = undefined and m = measured115vac]
    frequency_check_only_on_AC [where p = ac115 and toStr = undefined and m = measured115vac
      and fMin = 395 and fMax = 405]
  show ?thesis
    by simp
qed

subsection \<open>C6: the transient checks need both values\<close>

lemma filter_transient_checks:
  assumes "evaluate toStr p m = Inr r"
  shows "filter undervoltageLabelled (checks r) =
           [undervoltageCheck toStr p (uvDipPercent m) (uvDipDuration m)]"
    and "filter overvoltageLabelled (checks r) =
           [overvoltageCheck toStr p (ovSurgePercent m) (ovSurgeDuration m)]"
proof -
  from assms obtain pushed where
    f: "frequencyCheck toStr p (steadyFrequency m) = Inr pushed" and
    c: "checks r = steadyVoltageCheck toStr p (steadyVoltage m) # pushed @
            [rippleCheck toStr p (ripple m),
             undervoltageCheck toStr p (uvDipPercent m) (uvDipDuration m),
             overvoltageCheck toStr p (ovSurgePercent m) (ovSurgeDuration m)]"
    by (rule evaluate_cases)
  have "\<forall>c \<in> set pushed. label c = ''Steady-State Frequency''"
    using frequencyCheck_shape [OF f] by (cases pushed) (auto split: if_splits)
  then have "filter undervoltageLabelled pushed = []" "filter overvoltageLabelled pushed = []"
    by (auto simp: undervoltageLabelled_def overvoltageLabelled_def filter_empty_conv)
  then show "filter undervoltageLabelled (checks r) =
           [undervoltageCheck toStr p (uvDipPercent m) (uvDipDuration m)]"
    and "filter overvoltageLabelled (checks r) =
           [overvoltageCheck toStr p (ovSurgePercent m) (ovSurgeDuration m)]"
    by (simp_all add: c undervoltageLabelled_def overvoltageLabelled_def
        label_steadyVoltageCheck label_rippleCheck label_undervoltageCheck
        label_overvoltageCheck)
qed

text \<open>
  C6. For every profile, the report holds exactly one transient undervoltage check; it
  passes if and only if both a dip percent and a dip duration are provided, the percent
  is at most \<open>uvDipPercentMax\<close> and the duration at most \<open>uvDurationMaxMs\<close> (both
  inclusive, both required); with either value missing it is present and fails. The
  transient overvoltage check is the same with \<open>ovSurgePercentMax\<close> and
  \<open>ovDurationMaxMs\<close>.
\<close>

theorem transient_checks_need_both_values:
  assumes "evaluate toStr p m = Inr r"
  shows "(\<exists>c. filter undervoltageLabelled (checks r) = [c] \<and>
            pass c = (\<exists>pc du. uvDipPercent m = Some pc \<and> uvDipDuration m = Some du \<and>
                        pc \<le> uvDipPercentMax p \<and> du \<le> uvDurationMaxMs p))
       \<and> (\<exists>c. filter overvoltageLabelled (checks r) = [c] \<and>
            pass c = (\<exists>pc du. ovSurgePercent m = Some pc \<and> ovSurgeDuration m = Some du \<and>
                        pc \<le> ovSurgePercentMax p \<and> du \<le> ovDurationMaxMs p))"
  unfolding filter_transient_checks [OF assms]
  by (simp add: pass_undervoltageCheck pass_overvoltageCheck)

text \<open>
  The AC example: a dip of 15 % for 40 ms passes, a surge of 25 % for 40 ms fails on its
  percent alone.
\<close>

theorem transient_checks_need_both_values_witness:
  "evaluate undefined ac115 measured115vac = Inr report115vac
   \<and> (\<exists>c. filter undervoltageLabelled (checks report115vac) = [c] \<and> pass c)
   \<and> (\<exists>c. filter overvoltageLabelled (checks report115vac) = [c] \<and> \<not> pass c)"
proof -
  have ev: "evaluate undefined ac115 measured115vac = Inr report115vac"
    by (rule evaluate_measured115vac)
  from ev transient_checks_need_both_values [OF ev]
  show ?thesis
    by (simp add: measured115vac_def ac115_def)
qed

subsection \<open>C7: what the detail strings print\<close>

text \<open>
  C7 as stated gives voltages two decimal places and percentages one, and has every
  detail string report the measured value and the limit. On the DC bus with a voltage of
  \<open>27.5\<close> and a ripple of \<open>3\<close>: the voltage limits are printed as \<open>22.0\<close> and \<open>29.0\<close>,
  with one decimal place; the measured ripple percentage is printed as \<open>3.00\<close>, with
  two; and the detail of a check without its value reports no number at all.
\<close>

theorem detail_precision_differs:
  "detail (steadyVoltageCheck undefined dc28 (Some 27.5)) =
     ''Measured: 27.50 V, Allowed: 22.0'' @ enDash @ ''29.0 V''
   \<and> \<not> fixedPoint 2 ''22.0'' \<and> \<not> fixedPoint 2 ''29.0''
   \<and> detail (rippleCheck undefined dc28 (Some 3)) =
     ''Measured: 3.00 %, Allowed: '' @ leSign @ '' 5.0 %''
   \<and> \<not> fixedPoint 1 ''3.00''
   \<and> detail (steadyVoltageCheck undefined dc28 None) = ''No measured voltage provided.''"
  by (simp add: steadyVoltageCheck_def rippleCheck_def toFixed_eval dc28_def
      fixedPoint_def unsigned_def isDigit_def)

text \<open>
  C7, amended. When the values a check needs are provided, its detail string reports the
  measured values and the allowed range or threshold, each printed by \<open>toFixed\<close>: the
  measured voltage, frequency and ripple or distortion percentage with 2 decimal places;
  the limits of the voltage range, of the frequency range and of the ripple with 1; the
  dip and surge percentages, measured and allowed, with 1; the durations, measured and
  allowed, with 0. For every magnitude below \<open>10^21\<close>, \<open>toFixed\<close> prints exactly the
  number of decimal places it is given, and the numeral it prints is within half a unit
  of the last place of the value. When a needed value is absent the detail is a fixed
  message that names what is missing and reports no number.
\<close>

theorem detail_precision:
  "(steadyVoltageRange p = (vMin, vMax) \<longrightarrow>
      detail (steadyVoltageCheck toStr p (Some v)) =
        ''Measured: '' @ toFixed toStr v 2 @ '' V, Allowed: ''
          @ toFixed toStr vMin 1 @ enDash @ toFixed toStr vMax 1 @ '' V'')
   \<and> (hasFrequency p \<and> frequencyRange p = Some (fMin, fMax) \<longrightarrow>
      (\<exists>c. frequencyCheck toStr p (Some fr) = Inr [c] \<and>
         detail c =
           ''Measured: '' @ toFixed toStr fr 2 @ '' Hz, Allowed: ''
             @ toFixed toStr fMin 1 @ enDash @ toFixed toStr fMax 1 @ '' Hz''))
   \<and> detail (rippleCheck toStr p (Some x)) =
        ''Measured: '' @ toFixed toStr x 2 @ '' %, Allowed: '' @ leSign @ '' ''
          @ toFixed toStr (ripplePercentMax p) 1 @ '' %''
   \<and> detail (undervoltageCheck toStr p (Some pc) (Some du)) =
        ''Measured: '' @ toFixed toStr pc 1 @ '' % for '' @ toFixed toStr du 0
          @ '' ms, Allowed: '' @ leSign @ '' '' @ toFixed toStr (uvDipPercentMax p) 1
          @ '' % for '' @ leSign @ '' '' @ toFixed toStr (uvDurationMaxMs p) 0 @ '' ms''
   \<and> detail (overvoltageCheck toStr p (Some pc) (Some du)) =
        ''Measured: '' @ toFixed toStr pc 1 @ '' % for '' @ toFixed toStr du 0
          @ '' ms, Allowed: '' @ leSign @ '' '' @ toFixed toStr (ovSurgePercentMax p) 1
          @ '' % for '' @ leSign @ '' '' @ toFixed toStr (ovDurationMaxMs p) 0 @ '' ms''
   \<and> (belowExponent y \<longrightarrow>
        fixedPoint f (toFixed toStr y f) \<and>
        \<bar>numeralValue (toFixed toStr y f) - y\<bar> \<le> 1 / (2 * 10 ^ f))
   \<and> detail (steadyVoltageCheck toStr p None) = ''No measured voltage provided.''
   \<and> (hasFrequency p \<longrightarrow>
        (\<exists>c. frequencyCheck toStr p None = Inr [c] \<and>
           detail c = ''No measured frequency provided for AC bus.''))
   \<and> detail (rippleCheck toStr p None) = ''No ripple / distortion value provided.''
   \<and> (a = None \<or> b = None \<longrightarrow>
        detail (undervoltageCheck toStr p a b) =
          ''Undervoltage dip percent and/or duration not provided.''
        \<and> detail (overvoltageCheck toStr p a b) =
          ''Overvoltage surge percent and/or duration not provided.'')"
proof (intro conjI impI)
  assume "belowExponent y"
  then show "fixedPoint f (toFixed toStr y f)"
    and "\<bar>numeralValue (toFixed toStr y f) - y\<bar> \<le> 1 / (2 * 10 ^ f)"
    by (rule toFixed_fixedPoint, rule toFixed_nearest)
next
  assume "hasFrequency p \<and> frequencyRange p = Some (fMin, fMax)"
  then show "\<exists>c. frequencyCheck toStr p (Some fr) = Inr [c] \<and>
         detail c =
           ''Measured: '' @ toFixed toStr fr 2 @ '' Hz, Allowed: ''
             @ toFixed toStr fMin 1 @ enDash @ toFixed toStr fMax 1 @ '' Hz''"
    by (simp add: frequencyCheck_AC_Some)
next
  assume "hasFrequency p"
  then show "\<exists>c. frequencyCheck toStr p None = Inr [c] \<and>
           detail c = ''No measured frequency provided for AC bus.''"
    by (simp add: frequencyCheck_AC_None)
next
  assume "a = None \<or> b = None"
  then show "detail (undervoltageCheck toStr p a b) =
          ''Undervoltage dip percent and/or duration not provided.''"
    and "detail (overvoltageCheck toStr p a b) =
          ''Overvoltage surge percent and/or duration not provided.''"
    by (simp_all add: undervoltageCheck_None overvoltageCheck_None)
qed (simp_all add: steadyVoltageCheck_def rippleCheck_def Let_def undervoltageCheck_def
    overvoltageCheck_def)

text \<open>
  The AC example: every printed number, measured or allowed, is below \<open>10^21\<close> and has
  the decimal places named above.
\<close>

theorem detail_precision_witness:
  "steadyVoltageRange ac115 = (108, 118)
   \<and> detail (steadyVoltageCheck undefined ac115 (Some 113.5)) =
       ''Measured: '' @ ''113.50'' @ '' V, Allowed: '' @ ''108.0'' @ enDash @ ''118.0'' @ '' V''
   \<and> hasFrequency ac115 \<and> frequencyRange ac115 = Some (395, 405)
   \<and> (\<exists>c. frequencyCheck undefined ac115 (Some 402) = Inr [c] \<and>
         detail c =
           ''Measured: '' @ ''402.00'' @ '' Hz, Allowed: '' @ ''395.0'' @ enDash @ ''405.0''
             @ '' Hz'')
   \<and> detail (rippleCheck undefined ac115 (Some 4)) =
       ''Measured: '' @ ''4.00'' @ '' %, Allowed: '' @ leSign @ '' '' @ ''5.0'' @ '' %''
   \<and> detail (undervoltageCheck undefined ac115 (Some 15) (Some 40)) =
       ''Measured: '' @ ''15.0'' @ '' % for '' @ ''40'' @ '' ms, Allowed: '' @ leSign @ '' ''
         @ ''20.0'' @ '' % for '' @ leSign @ '' '' @ ''50'' @ '' ms''
   \<and> detail (overvoltageCheck undefined ac115 (Some 15) (Some 40)) =
       ''Measured: '' @ ''15.0'' @ '' % for '' @ ''40'' @ '' ms, Allowed: '' @ leSign @ '' ''
         @ ''20.0'' @ '' % for '' @ leSign @ '' '' @ ''50'' @ '' ms''
   \<and> belowExponent 113.5 \<and> fixedPoint 2 ''113.50''
   \<and> \<bar>numeralValue ''113.50'' - 113.5\<bar> \<le> 1 / (2 * 10 ^ 2)
   \<and> (\<exists>c. frequencyCheck undefined ac115 None = Inr [c] \<and>
         detail c = ''No measured frequency provided for AC bus.'')
   \<and> detail (undervoltageCheck undefined ac115 None (Some 40)) =
       ''Undervoltage dip percent and/or duration not provided.''
   \<and> detail (overvoltageCheck undefined ac115 None (Some 40)) =
       ''Overvoltage surge percent and/or duration not provided.''"
proof -
  have range: "steadyVoltageRange ac115 = (108, 118)"
    and ac: "hasFrequency ac115" "frequencyRange ac115 = Some (395, 405)"
    and lim: "ripplePercentMax ac115 = 5" "uvDipPercentMax ac115 = 20"
      "uvDurationMaxMs ac115 = 50" "ovSurgePercentMax ac115 = 20" "ovDurationMaxMs ac115 = 50"
    by (simp_all add: ac115_def)
  have small: "belowExponent 113.5"
    by (simp add: belowExponent_def)
  have printed: "toFixed undefined 113.5 2 = ''113.50''" "toFixed undefined 108 1 = ''108.0''"
    "toFixed undefined 118 1 = ''118.0''" "toFixed undefined 402 2 = ''402.00''"
    "toFixed undefined 395 1 = ''395.0''" "toFixed undefined 405 1 = ''405.0''"
    "toFixed undefined 4 2 = ''4.00''" "toFixed undefined 5 1 = ''5.0''"
    "toFixed undefined 15 1 = ''15.0''" "toFixed undefined 40 0 = ''40''"
    "toFixed undefined 20 1 = ''20.0''" "toFixed undefined 50 0 = ''50''"
    by (simp_all add: toFixed_eval)
  note inst = detail_precision [where p = ac115 and toStr = undefined and vMin = 108
      and vMax = 118 and v = "113.5" and fMin = 395 and fMax = 405 and fr = 402 and x = 4
      and pc = 15 and du = 40 and y = "113.5" and f = 2 and a = None and b = "Some 40",
      unfolded lim printed]
  from range ac small inst show ?thesis
    by blast
qed

subsection \<open>C8: the DC example of the specification\<close>

text \<open>
  C8 as stated has five checks pass. The report of this run holds four checks: the
  28 VDC profile has no frequency, so no frequency check is pushed.
\<close>

theorem dc_example_has_four_checks:
  "runComplianceCheck undefined ''28vdc'' form28vdc = Inr report28vdc
   \<and> length (checks report28vdc) = 4
   \<and> length (checks report28vdc) \<noteq> 5"
  by (simp add: run_form28vdc) (simp add: report28vdc_def)

text \<open>
  C8, amended. Evaluating profile \<open>28vdc\<close> with steadyVoltage = 27.8, ripple = 3,
  uvDipPercent = 10, uvDipDuration = 20, ovSurgePercent = 10, ovSurgeDuration = 20 (and no
  frequency) produces a report in which all four checks (steady-state voltage, DC ripple,
  transient undervoltage, transient overvoltage) pass and the overall verdict is PASS.
\<close>

theorem dc_example_passes:
  "\<exists>r. runComplianceCheck toStr ''28vdc'' form28vdc = Inr r
     \<and> map label (checks r) =
         [''Steady-State Voltage'', ''DC Ripple Voltage'',
          ''Transient Undervoltage'', ''Transient Overvoltage'']
     \<and> map pass (checks r) = [True, True, True, True]
     \<and> overallPass r"
  by (simp add: run_form28vdc) (simp add: report28vdc_def)

subsection \<open>C9: the checks of a report and their order\<close>

text \<open>
  C9. For every measurement set, a report for a profile with \<open>hasFrequency = true\<close>
  holds exactly five check results, labelled in this order: Steady-State Voltage,
  Steady-State Frequency, AC Distortion / THD, Transient Undervoltage, Transient
  Overvoltage; a report for a profile with \<open>hasFrequency = false\<close> holds exactly four:
  Steady-State Voltage, DC Ripple Voltage, Transient Undervoltage, Transient
  Overvoltage. Length and labels depend on the profile only, never on which measurements
  were provided; and every profile of the table, as every other profile with the
  frequency range its flag announces, gets a report for every measurement set.
\<close>

theorem report_labels:
  "(evaluate toStr p m = Inr r \<longrightarrow>
      map label (checks r) =
        (if hasFrequency p
         then [''Steady-State Voltage'', ''Steady-State Frequency'', ''AC Distortion / THD'',
               ''Transient Undervoltage'', ''Transient Overvoltage'']
         else [''Steady-State Voltage'', ''DC Ripple Voltage'',
               ''Transient Undervoltage'', ''Transient Overvoltage'']))
   \<and> (busProfiles k = Entry p \<or> rangePresent p \<longrightarrow> (\<exists>r. evaluate toStr p m = Inr r))"
proof (intro conjI impI)
  assume "evaluate toStr p m = Inr r"
  then show "map label (checks r) =
        (if hasFrequency p
         then [''Steady-State Voltage'', ''Steady-State Frequency'', ''AC Distortion / THD'',
               ''Transient Undervoltage'', ''Transient Overvoltage'']
         else [''Steady-State Voltage'', ''DC Ripple Voltage'',
               ''Transient Undervoltage'', ''Transient Overvoltage''])"
  proof (rule evaluate_cases)
    fix pushed
    assume f: "frequencyCheck toStr p (steadyFrequency m) = Inr pushed"
      and c: "checks r = steadyVoltageCheck toStr p (steadyVoltage m) # pushed @
            [rippleCheck toStr p (ripple m),
             undervoltageCheck toStr p (uvDipPercent m) (uvDipDuration m),
             overvoltageCheck toStr p (ovSurgePercent m) (ovSurgeDuration m)]"
    show ?thesis
      by (simp add: c frequencyCheck_shape [OF f] label_steadyVoltageCheck label_rippleCheck
          label_undervoltageCheck label_overvoltageCheck)
  qed
next
  assume "busProfiles k = Entry p \<or> rangePresent p"
  then have "rangePresent p"
    using busProfiles_rangePresent by blast
  then obtain pushed where "frequencyCheck toStr p (steadyFrequency m) = Inr pushed"
    using frequencyCheck_total by blast
  then show "\<exists>r. evaluate toStr p m = Inr r"
    by (simp add: evaluate_Inr)
qed

text \<open>
  The two profiles of the table, each with every value entered and with none: the same
  labels either way.
\<close>

theorem report_labels_witness:
  "evaluate undefined dc28 measured28vdc = Inr report28vdc
   \<and> map label (checks report28vdc) =
       [''Steady-State Voltage'', ''DC Ripple Voltage'',
        ''Transient Undervoltage'', ''Transient Overvoltage'']
   \<and> evaluate undefined ac115 measured115vac = Inr report115vac
   \<and> map label (checks report115vac) =
       [''Steady-State Voltage'', ''Steady-State Frequency'', ''AC Distortion / THD'',
        ''Transient Undervoltage'', ''Transient Overvoltage'']
   \<and> rangePresent dc28
   \<and> (\<exists>r. evaluate undefined dc28 nothingMeasured = Inr r)
   \<and> rangePresent ac115
   \<and> (\<exists>r. evaluate undefined ac115 nothingMeasured = Inr r)"
proof -
  have dc: "evaluate undefined dc28 measured28vdc = Inr report28vdc"
    by (rule evaluate_measured28vdc)
  have ac: "evaluate undefined ac115 measured115vac = Inr report115vac"
    by (rule evaluate_measured115vac)
  have wf: "rangePresent dc28" "rangePresent ac115"
    by (simp_all add: rangePresent_def dc28_def ac115_def)
  have fl: "\<not> hasFrequency dc28" "hasFrequency ac115"
    by (simp_all add: dc28_def ac115_def)
  from dc ac wf fl
    report_labels [where toStr = undefined and p = dc28 and m = measured28vdc
      and r = report28vdc and k = "''28vdc''"]
    report_labels [where toStr = undefined and p = ac115 and m = measured115vac
      and r = report115vac and k = "''115vac400''"]
    report_labels [where toStr = undefined and p = dc28 and m = nothingMeasured
      and r = report28vdc and k = "''28vdc''"]
    report_labels [where toStr = undefined and p = ac115 and m = nothingMeasured
      and r = report115vac and k = "''115vac400''"]
  show ?thesis
    by simp
qed

subsection \<open>C10: maxima without minima\<close>

text \<open>
  C10. The upper-bound checks enforce no lower bound. For every profile, a provided
  ripple value passes the ripple check whenever it is at most \<open>ripplePercentMax\<close>, and
  a provided percent and duration pass the undervoltage (overvoltage) check whenever each
  is at most its maximum; zero and negative values are included, and a ripple of \<open>-1\<close>
  passes on both profiles of the table. These are the checks the report holds.
\<close>

theorem upper_bound_checks_have_no_lower_bound:
  "(x \<le> ripplePercentMax p \<longrightarrow> pass (rippleCheck toStr p (Some x)))
   \<and> (pc \<le> uvDipPercentMax p \<and> du \<le> uvDurationMaxMs p \<longrightarrow>
        pass (undervoltageCheck toStr p (Some pc) (Some du)))
   \<and> (pc \<le> ovSurgePercentMax p \<and> du \<le> ovDurationMaxMs p \<longrightarrow>
        pass (overvoltageCheck toStr p (Some pc) (Some du)))
   \<and> (busProfiles k = Entry p \<longrightarrow> pass (rippleCheck toStr p (Some (- 1))))
   \<and> (evaluate toStr p m = Inr r \<longrightarrow>
        rippleCheck toStr p (ripple m) \<in> set (checks r) \<and>
        undervoltageCheck toStr p (uvDipPercent m) (uvDipDuration m) \<in> set (checks r) \<and>
        overvoltageCheck toStr p (ovSurgePercent m) (ovSurgeDuration m) \<in> set (checks r))"
proof (intro conjI impI)
  assume "busProfiles k = Entry p"
  then show "pass (rippleCheck toStr p (Some (- 1)))"
    by (rule busProfiles_cases) (simp_all add: rippleCheck_def dc28_def ac115_def)
next
  assume ev: "evaluate toStr p m = Inr r"
  show "rippleCheck toStr p (ripple m) \<in> set (checks r)"
    "undervoltageCheck toStr p (uvDipPercent m) (uvDipDuration m) \<in> set (checks r)"
    "overvoltageCheck toStr p (ovSurgePercent m) (ovSurgeDuration m) \<in> set (checks r)"
    by (rule evaluate_cases [OF ev], simp)+
qed (simp_all add: rippleCheck_def pass_undervoltageCheck pass_overvoltageCheck)

text \<open>
  On the DC bus: a ripple of \<open>-1\<close>, and a transient of \<open>-5\<close> percent for \<open>0\<close> ms.
\<close>

theorem upper_bound_checks_have_no_lower_bound_witness:
  "(- 1 :: rat) \<le> ripplePercentMax dc28
   \<and> pass (rippleCheck undefined dc28 (Some (- 1)))
   \<and> (- 5 :: rat) \<le> uvDipPercentMax dc28 \<and> (0 :: rat) \<le> uvDurationMaxMs dc28
   \<and> pass (undervoltageCheck undefined dc28 (Some (- 5)) (Some 0))
   \<and> (- 5 :: rat) \<le> ovSurgePercentMax dc28 \<and> (0 :: rat) \<le> ovDurationMaxMs dc28
   \<and> pass (overvoltageCheck undefined dc28 (Some (- 5)) (Some 0))
   \<and> busProfiles ''28vdc'' = Entry dc28
   \<and> evaluate undefined dc28 measured28vdc = Inr report28vdc
   \<and> rippleCheck undefined dc28 (ripple measured28vdc) \<in> set (checks report28vdc)"
proof -
  have lim: "ripplePercentMax dc28 = 5" "uvDipPercentMax dc28 = 20" "uvDurationMaxMs dc28 = 50"
    "ovSurgePercentMax dc28 = 20" "ovDurationMaxMs dc28 = 50"
    by (simp_all add: dc28_def)
  have key: "busProfiles ''28vdc'' = Entry dc28"
    by (simp add: busProfiles_def)
  have ev: "evaluate undefined dc28 measured28vdc = Inr report28vdc"
    by (rule evaluate_measured28vdc)
  from key ev
    upper_bound_checks_have_no_lower_bound [where p = dc28 and toStr = undefined
      and x = "- 1" and pc = "- 5" and du = 0 and k = "''28vdc''" and m = measured28vdc
      and r = report28vdc]
  show ?thesis
    by (simp add: lim)
qed

end
